theory Spec2Isabelle
  imports Main
begin

section \<open>Values accepted by the fluent query surface\<close>

text \<open>
  A JavaScript value as a filter method can receive it. \<open>Null\<close> stands for both
  \<open>null\<close> and \<open>undefined\<close>, which \<open>TypeUtil.isNull\<close> does not tell apart. A number
  is carried through the query untouched, so an integral payload is enough; a date is
  its time value in milliseconds. \<open>Obj\<close>, \<open>Func\<close> and \<open>Sym\<close> are the values the
  value transform rejects, with an opaque tag.
\<close>

datatype jsval =
    Null
  | Bool bool
  | Num int
  | Str string
  | Date int
  | Arr "jsval list"
  | Obj string
  | Func string
  | Sym string

text \<open>The \<open>typeof\<close> operator of the language.\<close>

fun typeof :: "jsval \<Rightarrow> string" where
  "typeof Null = ''object''"
| "typeof (Bool b) = ''boolean''"
| "typeof (Num n) = ''number''"
| "typeof (Str s) = ''string''"
| "typeof (Date d) = ''object''"
| "typeof (Arr vs) = ''object''"
| "typeof (Obj t) = ''object''"
| "typeof (Func t) = ''function''"
| "typeof (Sym t) = ''symbol''"

text \<open>
  Modelled from the spec: \<open>TypeUtil\<close> is not among the sources. \<open>isNull\<close> holds of a
  null or absent value, \<open>isArray\<close> of an array; \<open>isDate\<close> is the test
  \<open>value instanceof Date\<close>.
\<close>

fun isNull :: "jsval \<Rightarrow> bool" where
  "isNull Null = True"
| "isNull v = False"

fun isArray :: "jsval \<Rightarrow> bool" where
  "isArray (Arr vs) = True"
| "isArray v = False"

fun isDate :: "jsval \<Rightarrow> bool" where
  "isDate (Date d) = True"
| "isDate v = False"

datatype error =
    InvalidArgumentException string
  | InvalidOperationException string
  | ErrorResponseException string
  | ExternalError string

section \<open>Where parameters\<close>

text \<open>
  Modelled from the spec: the class \<open>WhereParams\<close> is not among the sources. A filter
  call is normalised into a structured request carrying the field name, the value and
  the \<open>exact\<close> flag (and \<open>allowWildcards\<close>); \<open>parametrize\<close> swaps the value for the
  name of the parameter it was registered under.
\<close>

record where_params =
  fieldName :: string
  wvalue :: jsval
  exact :: "bool option"
  allowWildcards :: "bool option"

record parametrized_where_params =
  p_fieldName :: string
  parameterName :: string
  p_exact :: "bool option"

definition WhereParams_from :: "string \<Rightarrow> jsval \<Rightarrow> bool option \<Rightarrow> bool option \<Rightarrow> where_params" where
  "WhereParams_from f v e w = \<lparr>fieldName = f, wvalue = v, exact = e, allowWildcards = w\<rparr>"


section \<open>The value transform\<close>

definition invalid_value_message :: string where
  "invalid_value_message =
     ''Invalid value passed to query condition. Only integer / number / string and null values are supported''"

text \<open>
  \<open>DocumentQuery.transformValue\<close>. The canonical string form of a date
  (\<open>DateUtil.stringify\<close>) is not among the sources and is the parameter \<open>stringify\<close>.
\<close>

definition transformValue :: "(int \<Rightarrow> string) \<Rightarrow> where_params \<Rightarrow> error + jsval" where
  "transformValue stringify whereParams =
     (let v = wvalue whereParams in
      if isNull v then Inr Null
      else if v = Str [] then Inr (Str [])
      else if isDate v then (case v of Date d \<Rightarrow> Inr (Str (stringify d)) | _ \<Rightarrow> Inr v)
      else if typeof v \<notin> set [''boolean'', ''number'', ''string'']
        then Inl (InvalidArgumentException invalid_value_message)
      else Inr v)"

text \<open>\<open>DocumentQuery.unpackValuesArray\<close>: nested arrays are unpacked in place.\<close>

fun unpackValuesArray :: "jsval list \<Rightarrow> jsval list" where
  "unpackValuesArray [] = []"
| "unpackValuesArray (Arr vs # rest) = unpackValuesArray vs @ unpackValuesArray rest"
| "unpackValuesArray (v # rest) = v # unpackValuesArray rest"

text \<open>
  The loop of \<open>DocumentQuery.transformValuesArray\<close> over the unpacked values: the first
  rejected value aborts it.
\<close>

fun transformEach :: "(int \<Rightarrow> string) \<Rightarrow> string \<Rightarrow> jsval list \<Rightarrow> error + jsval list" where
  "transformEach stringify f [] = Inr []"
| "transformEach stringify f (v # vs) =
     (case transformValue stringify (WhereParams_from f v None (Some True)) of
        Inl e \<Rightarrow> Inl e
      | Inr tv \<Rightarrow> (case transformEach stringify f vs of
                    Inl e \<Rightarrow> Inl e
                  | Inr tvs \<Rightarrow> Inr (tv # tvs)))"

definition transformValuesArray :: "(int \<Rightarrow> string) \<Rightarrow> string \<Rightarrow> jsval list \<Rightarrow> error + jsval list" where
  "transformValuesArray stringify f values = transformEach stringify f (unpackValuesArray values)"

section \<open>The query parameter table\<close>

text \<open>
  \<open>DocumentQueryParameters\<close> is an insertion-ordered \<open>Map\<close>: \<open>set\<close> overwrites the value
  of a key already present, in place, and appends a new key at the end; \<open>size\<close> counts
  the keys.
\<close>

type_synonym parameters = "(string \<times> jsval) list"

fun map_set :: "string \<Rightarrow> jsval \<Rightarrow> parameters \<Rightarrow> parameters" where
  "map_set k v [] = [(k, v)]"
| "map_set k v ((k', v') # ps) = (if k' = k then (k, v) # ps else (k', v') # map_set k v ps)"

definition toJson :: "parameters \<Rightarrow> parameters" where
  "toJson ps = ps"

text \<open>The decimal rendering of a size inside a template literal.\<close>

definition digit_char :: "nat \<Rightarrow> char" where
  "digit_char d = char_of (48 + d)"

fun decimal :: "nat \<Rightarrow> string" where
  "decimal n = (if n < 10 then [digit_char n] else decimal (n div 10) @ [digit_char (n mod 10)])"

declare decimal.simps [simp del]

definition parameter_name :: "nat \<Rightarrow> string" where
  "parameter_name n = CHR ''p'' # decimal n"

section \<open>The query builder, as the calls it receives\<close>

text \<open>
  Modelled from the spec: the class \<open>QueryBuilder\<close> is not among the sources, only its
  interface \<open>IQueryBuilder\<close>. The builder is a mutable, append-only token sequence that
  sees field names, parameter names and structural flags only; it is the sequence of
  the calls made on it, one token per call, in call order.
\<close>

text \<open>
  Modelled from the spec: \<open>SearchOperator\<close>, \<open>SpatialUnit\<close>, \<open>SpatialRelation\<close> and
  \<open>SpatialCriteria\<close> are not among the sources. Full-text search joins its terms by
  OR or AND; a unit and a relation are opaque names; a criteria object carries its
  relation, its error margin and the values it needs registered as parameters, for
  which the builder asks the parameter-name generator it is handed, once per value, in
  order.
\<close>

datatype search_operator = SearchOr | SearchAnd

record spatial_criteria =
  criteria_relation :: string
  criteria_distErrorPercent :: "jsval option"
  criteria_values :: "jsval list"

datatype builder_call =
    BSelectFields "string list" "string list option"
  | BWhereEquals parametrized_where_params
  | BWhereNotEquals parametrized_where_params
  | BWhereIn string string "bool option"
  | BWhereAllIn string string
  | BWhereStartsWith string string
  | BWhereEndsWith string string
  | BWhereBetween string string string "bool option"
  | BWhereGreaterThan string string "bool option"
  | BWhereGreaterThanOrEqual string string "bool option"
  | BWhereLessThan string string "bool option"
  | BWhereLessThanOrEqual string string "bool option"
  | BOpenSubclause
  | BCloseSubclause
  | BSearch string string search_operator
  | BWithinRadiusOf string string string string "string option" "jsval option"
  | BSpatialShape string string "string option" "jsval option"
  | BSpatialCriteria string spatial_criteria "string list"

section \<open>The query object\<close>

text \<open>
  Modelled from the spec: \<open>IDocumentConversionResult\<close> is not among the sources. A
  conversion result is the typed entity, its originating raw document and the
  conversion metadata.
\<close>

record ('t, 'r) conversion_result =
  document :: 't
  rawEntity :: 'r
  metadata :: 'r

text \<open>
  Modelled from the spec: \<open>Observable.emit\<close> is not among the sources. Notifications
  are delivered synchronously, in order, to observers that return; the query keeps the
  sequence delivered so far.
\<close>

datatype ('t, 'r) event =
    EVENT_DOCUMENTS_QUERIED
  | EVENT_DOCUMENT_FETCHED "('t, 'r) conversion_result"
  | EVENT_INCLUDES_FETCHED "'r list"

record ('t, 'r) document_query =
  withStatistics :: bool
  queryParameters :: parameters
  indexQueryOptions :: parameters
  q_take :: "int option"
  q_skip :: "int option"
  builder :: "builder_call list"
  emitted :: "('t, 'r) event list"

text \<open>The state a constructor call leaves behind.\<close>

definition create :: "bool \<Rightarrow> parameters \<Rightarrow> ('t, 'r) document_query" where
  "create stats opts =
     \<lparr>withStatistics = stats, queryParameters = [], indexQueryOptions = opts,
      q_take = None, q_skip = None, builder = [], emitted = []\<rparr>"

definition emit :: "('t, 'r) event \<Rightarrow> ('t, 'r) document_query \<Rightarrow> ('t, 'r) document_query" where
  "emit e q = q\<lparr>emitted := emitted q @ [e]\<rparr>"

definition builder_call :: "builder_call \<Rightarrow> ('t, 'r) document_query \<Rightarrow> ('t, 'r) document_query" where
  "builder_call c q = q\<lparr>builder := builder q @ [c]\<rparr>"

definition addQueryParameter ::
  "jsval \<Rightarrow> ('t, 'r) document_query \<Rightarrow> string \<times> ('t, 'r) document_query" where
  "addQueryParameter valueOrValues q =
     (let parameterName = parameter_name (length (queryParameters q))
      in (parameterName, q\<lparr>queryParameters := map_set parameterName valueOrValues (queryParameters q)\<rparr>))"

section \<open>The fluent filter surface\<close>

text \<open>
  A fluent method returns the query itself, or throws. The model returns the error
  thrown, if any, beside the query as the call leaves it, so that a mutation made
  before a throw would show.
\<close>

type_synonym ('t, 'r) fluent = "('t, 'r) document_query \<Rightarrow> error option \<times> ('t, 'r) document_query"

definition selectFields :: "string list \<Rightarrow> string list option \<Rightarrow> ('t, 'r) fluent" where
  "selectFields fieldNames projections q = (None, builder_call (BSelectFields fieldNames None) q)"





text \<open>
  \<open>whereIn\<close> computes the transformed values, and binds the \<open>values\<close> argument it was
  given.
\<close>

definition whereIn ::
  "(int \<Rightarrow> string) \<Rightarrow> string \<Rightarrow> jsval list \<Rightarrow> bool option \<Rightarrow> ('t, 'r) fluent" where
  "whereIn stringify f values ex q =
     (case transformValuesArray stringify f values of
        Inl e \<Rightarrow> (Some e, q)
      | Inr transformedValues \<Rightarrow>
          (let (name, q1) = addQueryParameter (Arr values) q
           in (None, builder_call (BWhereIn f name ex) q1)))"



text \<open>
  A range endpoint: the sentinel \<open>dflt\<close> when the value is null, its transform
  otherwise.
\<close>

definition endpoint ::
  "(int \<Rightarrow> string) \<Rightarrow> string \<Rightarrow> string \<Rightarrow> jsval \<Rightarrow> bool option \<Rightarrow> error + jsval" where
  "endpoint stringify dflt f v ex =
     (if \<not> isNull v then transformValue stringify (WhereParams_from f v ex None)
      else Inr (Str dflt))"

definition whereBetween ::
  "(int \<Rightarrow> string) \<Rightarrow> string \<Rightarrow> jsval \<Rightarrow> jsval \<Rightarrow> bool option \<Rightarrow> ('t, 'r) fluent" where
  "whereBetween stringify f start end' ex q =
     (case endpoint stringify ''*'' f start ex of
        Inl e \<Rightarrow> (Some e, q)
      | Inr transformedFrom \<Rightarrow>
          (case endpoint stringify ''NULL'' f end' ex of
             Inl e \<Rightarrow> (Some e, q)
           | Inr transformedTo \<Rightarrow>
               (let (fromName, q1) = addQueryParameter transformedFrom q;
                    (toName, q2) = addQueryParameter transformedTo q1
                in (None, builder_call (BWhereBetween f fromName toName ex) q2))))"

definition whereGreaterThan ::
  "(int \<Rightarrow> string) \<Rightarrow> string \<Rightarrow> jsval \<Rightarrow> bool option \<Rightarrow> ('t, 'r) fluent" where
  "whereGreaterThan stringify f v ex q =
     (case endpoint stringify ''*'' f v ex of
        Inl e \<Rightarrow> (Some e, q)
      | Inr transformedValue \<Rightarrow>
          (let (name, q1) = addQueryParameter transformedValue q
           in (None, builder_call (BWhereGreaterThan f name ex) q1)))"

definition whereGreaterThanOrEqual ::
  "(int \<Rightarrow> string) \<Rightarrow> string \<Rightarrow> jsval \<Rightarrow> bool option \<Rightarrow> ('t, 'r) fluent" where
  "whereGreaterThanOrEqual stringify f v ex q =
     (case endpoint stringify ''*'' f v ex of
        Inl e \<Rightarrow> (Some e, q)
      | Inr transformedValue \<Rightarrow>
          (let (name, q1) = addQueryParameter transformedValue q
           in (None, builder_call (BWhereGreaterThanOrEqual f name ex) q1)))"

definition whereLessThan ::
  "(int \<Rightarrow> string) \<Rightarrow> string \<Rightarrow> jsval \<Rightarrow> bool option \<Rightarrow> ('t, 'r) fluent" where
  "whereLessThan stringify f v ex q =
     (case endpoint stringify ''NULL'' f v ex of
        Inl e \<Rightarrow> (Some e, q)
      | Inr transformedValue \<Rightarrow>
          (let (name, q1) = addQueryParameter transformedValue q
           in (None, builder_call (BWhereLessThan f name ex) q1)))"

definition whereLessThanOrEqual ::
  "(int \<Rightarrow> string) \<Rightarrow> string \<Rightarrow> jsval \<Rightarrow> bool option \<Rightarrow> ('t, 'r) fluent" where
  "whereLessThanOrEqual stringify f v ex q =
     (case endpoint stringify ''NULL'' f v ex of
        Inl e \<Rightarrow> (Some e, q)
      | Inr transformedValue \<Rightarrow>
          (let (name, q1) = addQueryParameter transformedValue q
           in (None, builder_call (BWhereLessThanOrEqual f name ex) q1)))"

definition containsAny :: "(int \<Rightarrow> string) \<Rightarrow> string \<Rightarrow> jsval list \<Rightarrow> ('t, 'r) fluent" where
  "containsAny stringify f values q =
     (case transformValuesArray stringify f values of
        Inl e \<Rightarrow> (Some e, q)
      | Inr transformedValues \<Rightarrow>
          (if length transformedValues \<noteq> 0
           then (let (name, q1) = addQueryParameter (Arr transformedValues) q
                 in (None, builder_call (BWhereIn f name None) q1))
           else (None, q)))"

definition containsAll :: "(int \<Rightarrow> string) \<Rightarrow> string \<Rightarrow> jsval list \<Rightarrow> ('t, 'r) fluent" where
  "containsAll stringify f values q =
     (case transformValuesArray stringify f values of
        Inl e \<Rightarrow> (Some e, q)
      | Inr transformedValues \<Rightarrow>
          (if length transformedValues \<noteq> 0
           then (let (name, q1) = addQueryParameter (Arr transformedValues) q
                 in (None, builder_call (BWhereAllIn f name) q1))
           else (None, q)))"

text \<open>
  The methods that bind what they are given, with no value transform: subclause
  grouping, full-text search and the spatial predicates. The language checks the
  argument types at compile time only, so the model lets any value in.
\<close>

definition openSubclause :: "('t, 'r) fluent" where
  "openSubclause q = (None, builder_call BOpenSubclause q)"

definition closeSubclause :: "('t, 'r) fluent" where
  "closeSubclause q = (None, builder_call BCloseSubclause q)"






section \<open>Execution and conversion\<close>

text \<open>
  The response envelope. A field the envelope does not carry is \<open>None\<close>: the envelope
  synthesised for an absent response has results and includes only.
\<close>

record 'r raven_response =
  Results :: "'r list"
  Includes :: "'r list"
  TotalResults :: "int option"
  IsStale :: "bool option"

text \<open>The query descriptor \<open>IndexQuery\<close>, as its constructor receives it.\<close>

record index_query =
  iq_query :: string
  iq_queryParameters :: parameters
  iq_take :: int
  iq_skip :: int
  iq_options :: parameters

text \<open>
  Modelled from the spec: the constant \<open>TypeUtil.MAX_INT32\<close> is not among the sources;
  it is the unbounded sentinel of \<open>take\<close>, the largest 32-bit signed integer.
\<close>

definition MAX_INT32 :: int where
  "MAX_INT32 = 2147483647"

text \<open>
  How a call that hands back a promise can end: it throws before any promise exists,
  or it returns a promise, which is rejected with an error or resolved with a value.
\<close>

datatype 'a completion = Throws error | Rejects error | Resolves 'a

text \<open>
  The collaborators of a query, none of them among the sources. Rendering the builder
  (\<open>toString\<close>) gives the query text or throws (an unclosed subclause is surfaced at
  render time). The execution layer stands for building the command around the
  descriptor and \<open>requestExecutor.execute\<close> on it: it throws, or its promise is
  rejected or resolved with an absent response or an envelope. Of the conventions,
  \<open>convertToDocument\<close> is taken at the document type and nested types the query was
  created with and can throw; fetching the results and includes of an envelope and the
  projection test return normally.
\<close>

record ('t, 'r) collaborators =
  render :: "builder_call list \<Rightarrow> error + string"
  execute :: "index_query \<Rightarrow> 'r raven_response option completion"
  tryFetchResults :: "'r raven_response \<Rightarrow> 'r list"
  tryFetchIncludes :: "'r raven_response \<Rightarrow> 'r list"
  convertToDocument :: "'r \<Rightarrow> error + ('t, 'r) conversion_result"
  checkIsProjection :: "'r \<Rightarrow> bool"

definition take_q :: "int option \<Rightarrow> ('t, 'r) document_query \<Rightarrow> ('t, 'r) document_query" where
  "take_q docsCount q = q\<lparr>q_take := docsCount\<rparr>"

definition skip_q :: "int option \<Rightarrow> ('t, 'r) document_query \<Rightarrow> ('t, 'r) document_query" where
  "skip_q skipCount q = q\<lparr>q_skip := skipCount\<rparr>"

text \<open>\<open>getIndexQuery\<close> renders first: a throw of the rendering is its own.\<close>

definition getIndexQuery ::
  "('t, 'r) collaborators \<Rightarrow> ('t, 'r) document_query \<Rightarrow> error + index_query" where
  "getIndexQuery env q =
     (case render env (builder q) of
        Inl e \<Rightarrow> Inl e
      | Inr query \<Rightarrow>
          Inr \<lparr>iq_query = query,
               iq_queryParameters = toJson (queryParameters q),
               iq_take = (case q_take q of None \<Rightarrow> MAX_INT32 | Some t \<Rightarrow> t),
               iq_skip = (case q_skip q of None \<Rightarrow> 0 | Some k \<Rightarrow> k),
               iq_options = indexQueryOptions q\<rparr>)"

definition stale_message :: string where
  "stale_message = ''The index is still stale after reached the timeout''"

definition empty_envelope :: "'r raven_response" where
  "empty_envelope = \<lparr>Results = [], Includes = [], TotalResults = None, IsStale = None\<rparr>"

text \<open>
  \<open>executeQuery\<close> is no async function: what throws before
  \<open>requestExecutor.execute\<close> has returned its promise leaves it as a throw, and only
  the then-handler turns into rejections.
\<close>

definition executeQuery ::
  "('t, 'r) collaborators \<Rightarrow> ('t, 'r) document_query \<Rightarrow>
   'r raven_response completion \<times> ('t, 'r) document_query" where
  "executeQuery env q =
     (let q1 = emit EVENT_DOCUMENTS_QUERIED q
      in case getIndexQuery env q1 of
           Inl e \<Rightarrow> (Throws e, q1)
         | Inr query \<Rightarrow>
             (case execute env query of
                Throws e \<Rightarrow> (Throws e, q1)
              | Rejects e \<Rightarrow> (Rejects e, q1)
              | Resolves None \<Rightarrow> (Resolves empty_envelope, q1)
              | Resolves (Some response) \<Rightarrow>
                  (if IsStale response = Some True
                   then (Rejects (ErrorResponseException stale_message), q1)
                   else (Resolves response, q1))))"

datatype ('t, 'r) query_results =
    Plain "'t list"
  | WithStatistics "'t list" "'r raven_response"

text \<open>The \<open>forEach\<close> of the conversion: one raw result at a time, in order.\<close>

fun convertEach ::
  "('t, 'r) collaborators \<Rightarrow> 'r list \<Rightarrow> 't list \<Rightarrow> ('t, 'r) document_query \<Rightarrow>
   (error + 't list) \<times> ('t, 'r) document_query" where
  "convertEach env [] results q = (Inr results, q)"
| "convertEach env (r # rs) results q =
     (case convertToDocument env r of
        Inl e \<Rightarrow> (Inl e, q)
      | Inr conversionResult \<Rightarrow>
          convertEach env rs (results @ [document conversionResult])
            (if \<not> checkIsProjection env r
             then emit (EVENT_DOCUMENT_FETCHED conversionResult) q else q))"

definition convertResponseToDocuments ::
  "('t, 'r) collaborators \<Rightarrow> 'r raven_response \<Rightarrow> ('t, 'r) document_query \<Rightarrow>
   (error + ('t, 'r) query_results) \<times> ('t, 'r) document_query" where
  "convertResponseToDocuments env response q =
     (let responseResults = tryFetchResults env response in
      if length responseResults > 0 then
        (let responseIncludes = tryFetchIncludes env response in
         case convertEach env responseResults [] q of
           (Inl e, q1) \<Rightarrow> (Inl e, q1)
         | (Inr results, q1) \<Rightarrow>
             (let q2 = (if length responseIncludes \<noteq> 0
                        then emit (EVENT_INCLUDES_FETCHED responseIncludes) q1 else q1)
              in if withStatistics q2
                 then (Inr (WithStatistics results response), q2)
                 else (Inr (Plain results), q2)))
      else (Inr (Plain []), q))"

text \<open>
  What \<open>results.length\<close> and \<open>_.first(results)\<close> read off the value the conversion
  returned: a statistics pair is no array and has neither.
\<close>

fun results_length :: "('t, 'r) query_results \<Rightarrow> nat option" where
  "results_length (Plain xs) = Some (length xs)"
| "results_length (WithStatistics xs response) = None"

fun first_result :: "('t, 'r) query_results \<Rightarrow> 't option" where
  "first_result (Plain (x # xs)) = Some x"
| "first_result other = None"

definition more_than_one_message :: string where
  "more_than_one_message = ''There's more than one result corresponding to given query criteria.''"

definition no_results_message :: string where
  "no_results_message = ''There's no results corresponding to given query criteria.''"

text \<open>
  Modelled from the spec: \<open>PromiseResolver\<close> is not among the sources. With no
  completion callback, \<open>resolve\<close> does nothing and \<open>reject\<close> fails the returned
  deferred value with the error it was given.
\<close>

text \<open>
  The terminal methods, called without a completion callback. The outcome is the value
  the promise of the async method settles with (\<open>Inl\<close> a rejection), beside the query
  as the call leaves it. The \<open>then\<close>, \<open>catch\<close> and \<open>finally\<close> steps are chained on
  the promise \<open>executeQuery\<close> returns: a then-handler that throws, as the conversion
  can, rejects that promise and reaches \<open>finally\<close> like a rejection of the execution
  layer, while a throw of \<open>executeQuery\<close> itself rejects the promise of the async
  method with nothing chained on it.
\<close>

definition single ::
  "('t, 'r) collaborators \<Rightarrow> ('t, 'r) document_query \<Rightarrow>
   (error + 't option) \<times> ('t, 'r) document_query" where
  "single env q =
     (let take = q_take q; skip = q_skip q; stats = withStatistics q;
          q0 = q\<lparr>q_take := Some 2, q_skip := Some 0, withStatistics := False\<rparr>
      in case executeQuery env q0 of
           (Throws e, q1) \<Rightarrow> (Inl e, q1)
         | (Rejects e, q1) \<Rightarrow>
             (Inl e, q1\<lparr>q_take := take, q_skip := skip, withStatistics := stats\<rparr>)
         | (Resolves response, q1) \<Rightarrow>
             (let (outcome, q3) =
                (case convertResponseToDocuments env response q1 of
                   (Inl e, q2) \<Rightarrow> (Inl e, q2)
                 | (Inr results, q2) \<Rightarrow>
                     (let n = results_length results;
                          result = (if n \<noteq> None \<and> n \<noteq> Some 0
                                    then first_result results else None)
                      in if n \<noteq> Some 1
                         then (Inl (InvalidOperationException
                                 (if (case n of None \<Rightarrow> False | Some k \<Rightarrow> k > 1)
                                  then more_than_one_message else no_results_message)), q2)
                         else (Inr result, q2)))
              in (outcome, q3\<lparr>q_take := take, q_skip := skip, withStatistics := stats\<rparr>)))"

definition first ::
  "('t, 'r) collaborators \<Rightarrow> ('t, 'r) document_query \<Rightarrow>
   (error + 't option) \<times> ('t, 'r) document_query" where
  "first env q =
     (let take = q_take q; skip = q_skip q; stats = withStatistics q;
          q0 = q\<lparr>q_take := Some 1, q_skip := Some 0, withStatistics := False\<rparr>
      in case executeQuery env q0 of
           (Throws e, q1) \<Rightarrow> (Inl e, q1)
         | (Rejects e, q1) \<Rightarrow>
             (Inl e, q1\<lparr>q_take := take, q_skip := skip, withStatistics := stats\<rparr>)
         | (Resolves response, q1) \<Rightarrow>
             (let (outcome, q3) =
                (case convertResponseToDocuments env response q1 of
                   (Inl e, q2) \<Rightarrow> (Inl e, q2)
                 | (Inr results, q2) \<Rightarrow>
                     (let n = results_length results;
                          result = (if n \<noteq> None \<and> n \<noteq> Some 0
                                    then first_result results else None)
                      in (Inr result, q2)))
              in (outcome, q3\<lparr>q_take := take, q_skip := skip, withStatistics := stats\<rparr>)))"

definition count ::
  "('t, 'r) collaborators \<Rightarrow> ('t, 'r) document_query \<Rightarrow>
   (error + int) \<times> ('t, 'r) document_query" where
  "count env q =
     (let take = q_take q; skip = q_skip q;
          q0 = q\<lparr>q_take := Some 0, q_skip := Some 0\<rparr>
      in case executeQuery env q0 of
           (Throws e, q1) \<Rightarrow> (Inl e, q1)
         | (Rejects e, q1) \<Rightarrow> (Inl e, q1\<lparr>q_take := take, q_skip := skip\<rparr>)
         | (Resolves response, q1) \<Rightarrow>
             (Inr (case TotalResults response of None \<Rightarrow> 0 | Some n \<Rightarrow> n),
              q1\<lparr>q_take := take, q_skip := skip\<rparr>))"

definition all_q ::
  "('t, 'r) collaborators \<Rightarrow> ('t, 'r) document_query \<Rightarrow>
   (error + ('t, 'r) query_results) \<times> ('t, 'r) document_query" where
  "all_q env q =
     (case executeQuery env q of
        (Throws e, q1) \<Rightarrow> (Inl e, q1)
      | (Rejects e, q1) \<Rightarrow> (Inl e, q1)
      | (Resolves response, q1) \<Rightarrow> convertResponseToDocuments env response q1)"

section \<open>Predicates of the specification and sample collaborators\<close>

text \<open>
  A sample rendering of dates, for running the filter methods.
\<close>

definition sample_stringify :: "int \<Rightarrow> string" where
  "sample_stringify d = ''date''"

text \<open>
  Reading a decimal rendering back.
\<close>

definition decimal_value :: "string \<Rightarrow> nat" where
  "decimal_value s = foldl (\<lambda>a c. 10 * a + (of_char c - 48)) 0 s"

text \<open>
  The tables a typed query builds: the keys are the generated names, in order.
\<close>

definition params_wf :: "parameters \<Rightarrow> bool" where
  "params_wf ps = (map fst ps = map parameter_name [0..<length ps])"


text \<open>
  The notifications a completed conversion owes for its results: one
  \<open>document fetched\<close> for each raw result that is not a projection, in result order,
  carrying its conversion result.
\<close>

definition fetched_events ::
  "('t, 'r) collaborators \<Rightarrow> 'r list \<Rightarrow> ('t, 'r) conversion_result list \<Rightarrow> ('t, 'r) event list" where
  "fetched_events env rs cs =
     map (\<lambda>(r, c). EVENT_DOCUMENT_FETCHED c) (filter (\<lambda>(r, c). \<not> checkIsProjection env r) (zip rs cs))"

text \<open>
  And for its includes: one \<open>includes fetched\<close> for a non-empty batch, none otherwise.
\<close>

definition includes_events :: "'r list \<Rightarrow> ('t, 'r) event list" where
  "includes_events incl = (if incl = [] then [] else [EVENT_INCLUDES_FETCHED incl])"

text \<open>
  Modelled from the spec: the rendering of the builder is not among the sources. The
  subclause nesting depth must be back at zero before rendering, and unbalanced nesting
  is surfaced at render time; the sample rendering throws on it and gives the empty
  text otherwise.
\<close>

fun clause_depth :: "builder_call list \<Rightarrow> int" where
  "clause_depth [] = 0"
| "clause_depth (BOpenSubclause # calls) = clause_depth calls + 1"
| "clause_depth (BCloseSubclause # calls) = clause_depth calls - 1"
| "clause_depth (c # calls) = clause_depth calls"

definition sample_render :: "builder_call list \<Rightarrow> error + string" where
  "sample_render calls =
     (if clause_depth calls \<noteq> 0
      then Inl (InvalidOperationException ''A clause was not closed correctly within this query'')
      else Inr [])"

text \<open>
  Sample collaborators over raw documents and entities that are numbers: the sample
  rendering, an envelope that gives its own results and includes, and a conversion that
  multiplies by ten and throws on the raw document 0.
\<close>

definition stub_env ::
  "(index_query \<Rightarrow> nat raven_response option completion) \<Rightarrow> (nat \<Rightarrow> bool) \<Rightarrow> (nat, nat) collaborators" where
  "stub_env exec proj =
     \<lparr>render = sample_render, execute = exec, tryFetchResults = Results,
      tryFetchIncludes = Includes,
      convertToDocument = (\<lambda>r. if r = 0 then Inl (ExternalError ''conversion'')
                                else Inr \<lparr>document = 10 * r, rawEntity = r, metadata = 0\<rparr>),
      checkIsProjection = proj\<rparr>"

text \<open>
  A sample envelope with the given results, includes and staleness flag.
\<close>

definition envelope :: "nat list \<Rightarrow> nat list \<Rightarrow> bool option \<Rightarrow> nat raven_response" where
  "envelope rs incl stale = \<lparr>Results = rs, Includes = incl, TotalResults = Some (int (length rs)), IsStale = stale\<rparr>"

section \<open>Properties\<close>

lemma digit_char_value: "d < 10 \<Longrightarrow> of_char (digit_char d) - 48 = d"
  by (simp add: digit_char_def)

text \<open>
  The decimal rendering can be read back, so two sizes never share a parameter name.
\<close>

lemma decimal_value_decimal: "decimal_value (decimal n) = n"
proof (induction n rule: decimal.induct)
  case (1 n)
  show ?case
  proof (cases "n < 10")
    case True
    then show ?thesis
      by (subst decimal.simps) (simp add: decimal_value_def digit_char_value)
  next
    case False
    have m: "n mod 10 < 10" by simp
    from False 1 have ih: "decimal_value (decimal (n div 10)) = n div 10" by simp
    have "decimal_value (decimal n) = 10 * decimal_value (decimal (n div 10)) + (of_char (digit_char (n mod 10)) - 48)"
      using False by (subst decimal.simps) (simp add: decimal_value_def)
    also have "\<dots> = 10 * (n div 10) + n mod 10"
      by (simp only: ih digit_char_value [OF m])
    finally show ?thesis by simp
  qed
qed

lemma parameter_name_inj: "parameter_name m = parameter_name n \<Longrightarrow> m = n"
proof -
  assume "parameter_name m = parameter_name n"
  then have "decimal m = decimal n" by (simp add: parameter_name_def)
  then have "decimal_value (decimal m) = decimal_value (decimal n)" by simp
  then show "m = n" by (simp only: decimal_value_decimal)
qed

lemma map_set_fresh: "k \<notin> fst ` set ps \<Longrightarrow> map_set k v ps = ps @ [(k, v)]"
  by (induction ps) auto

lemma params_wf_fresh:
  assumes "params_wf ps"
  shows "parameter_name (length ps) \<notin> fst ` set ps"
proof
  assume "parameter_name (length ps) \<in> fst ` set ps"
  then have "parameter_name (length ps) \<in> set (map fst ps)" by simp
  with assms have "parameter_name (length ps) \<in> set (map parameter_name [0..<length ps])"
    by (simp only: params_wf_def)
  then obtain i where "i < length ps" "parameter_name (length ps) = parameter_name i" by auto
  then show False using parameter_name_inj by blast
qed

lemma params_wf_snoc: "params_wf ps \<Longrightarrow> params_wf (ps @ [(parameter_name (length ps), v)])"
  by (simp add: params_wf_def)

text \<open>
  On a table whose keys are the generated names \<open>p0\<close>, \<open>p1\<close>, ... in order (the only
  tables a typed query builds), registering a value appends one fresh binding.
\<close>

lemma addQueryParameter_wf:
  "params_wf (queryParameters q) \<Longrightarrow>
   addQueryParameter v q =
     (parameter_name (length (queryParameters q)),
      q\<lparr>queryParameters := queryParameters q @ [(parameter_name (length (queryParameters q)), v)]\<rparr>)"
  by (simp add: addQueryParameter_def Let_def map_set_fresh [OF params_wf_fresh])

text \<open>
  A new query has such a table, and every registration keeps it so.
\<close>

lemma params_wf_create: "params_wf (queryParameters (create stats opts))"
  by (simp add: params_wf_def create_def)

lemma addQueryParameter_preserves_wf:
  "params_wf (queryParameters q) \<Longrightarrow> params_wf (queryParameters (snd (addQueryParameter v q)))"
  by (simp add: addQueryParameter_wf params_wf_snoc)

lemma parameter_name_0: "parameter_name 0 = ''p0''"
  by code_simp

lemma parameter_name_1: "parameter_name (Suc 0) = ''p1''"
  by code_simp









text \<open>
  C10: \<open>selectFields(fields, projections)\<close> has the effect of \<open>selectFields(fields)\<close>:
  the builder receives one \<open>selectFields\<close> call with the fields alone.
\<close>

theorem selectFields_projections_discarded:
  "selectFields fieldNames (Some projections) q = selectFields fieldNames None q
   \<and> selectFields fieldNames (Some projections) q =
       (None, q\<lparr>builder := builder q @ [BSelectFields fieldNames None]\<rparr>)"
  by (simp add: selectFields_def builder_call_def)

lemma unpackValuesArray_flat: "v \<in> set (unpackValuesArray vs) \<Longrightarrow> \<not> isArray v"
  by (induction vs rule: unpackValuesArray.induct) auto

text \<open>
  C1, as stated, fails: on a fresh query \<open>whereBetween('age', null, 30)\<close> binds the
  lower value \<open>p0\<close> to \<open>'*'\<close>, not to \<open>'NULL'\<close>, and \<open>whereBetween('age', 18, null)\<close>
  binds the upper value \<open>p1\<close> to \<open>'NULL'\<close>, not to \<open>'*'\<close>.
\<close>

theorem whereBetween_null_start_counterexample:
  "map_of (queryParameters (snd (whereBetween sample_stringify ''age'' Null (Num 30) None
      (create False [] :: (unit, unit) document_query)))) ''p0'' = Some (Str ''*'')
   \<and> map_of (queryParameters (snd (whereBetween sample_stringify ''age'' Null (Num 30) None
      (create False [] :: (unit, unit) document_query)))) ''p0'' \<noteq> Some (Str ''NULL'')
   \<and> map_of (queryParameters (snd (whereBetween sample_stringify ''age'' (Num 18) Null None
      (create False [] :: (unit, unit) document_query)))) ''p1'' = Some (Str ''NULL'')
   \<and> map_of (queryParameters (snd (whereBetween sample_stringify ''age'' (Num 18) Null None
      (create False [] :: (unit, unit) document_query)))) ''p1'' \<noteq> Some (Str ''*'')"
  by code_simp

lemma endpoint_Null: "endpoint stringify d f Null ex = Inr (Str d)"
  by (simp add: endpoint_def)

lemma endpoint_value:
  "v \<noteq> Null \<Longrightarrow> endpoint stringify d f v ex = transformValue stringify (WhereParams_from f v ex None)"
  by (cases v) (simp_all add: endpoint_def)

lemma whereBetween_wf:
  assumes "params_wf (queryParameters q)"
    and "endpoint stringify ''*'' f start ex = Inr a"
    and "endpoint stringify ''NULL'' f end' ex = Inr b"
  shows "whereBetween stringify f start end' ex q =
      (None, q\<lparr>queryParameters := queryParameters q @
                 [(parameter_name (length (queryParameters q)), a),
                  (parameter_name (Suc (length (queryParameters q))), b)],
               builder := builder q @
                 [BWhereBetween f (parameter_name (length (queryParameters q)))
                    (parameter_name (Suc (length (queryParameters q)))) ex]\<rparr>)"
proof -
  let ?n = "length (queryParameters q)"
  let ?q1 = "q\<lparr>queryParameters := queryParameters q @ [(parameter_name ?n, a)]\<rparr>"
  have wf1: "params_wf (queryParameters ?q1)"
    using assms(1) by (simp add: params_wf_snoc)
  have s1: "addQueryParameter a q = (parameter_name ?n, ?q1)"
    by (rule addQueryParameter_wf [OF assms(1)])
  have s2: "addQueryParameter b ?q1 =
      (parameter_name (Suc ?n),
       ?q1\<lparr>queryParameters := queryParameters ?q1 @ [(parameter_name (Suc ?n), b)]\<rparr>)"
    using addQueryParameter_wf [OF wf1, of b] by simp
  show ?thesis
    by (simp add: whereBetween_def assms(2,3) s1 s2 builder_call_def)
qed

text \<open>
  C1, amended: a null endpoint is replaced by a sentinel before binding, \<open>'*'\<close> for a
  null lower bound (the \<open>start\<close> of \<open>whereBetween\<close>, the value of
  \<open>whereGreaterThan[OrEqual]\<close>) and \<open>'NULL'\<close> for a null upper bound (the \<open>end\<close> of
  \<open>whereBetween\<close>, the value of \<open>whereLessThan[OrEqual]\<close>). \<open>whereBetween\<close> always
  registers two parameters, the lower one first, and hands both names to the builder.
\<close>

theorem range_sentinels:
  assumes "params_wf (queryParameters q)"
    and "v \<noteq> Null"
    and "transformValue stringify (WhereParams_from f v ex None) = Inr tv"
    and "n = length (queryParameters q)"
  shows "whereBetween stringify f Null v ex q =
      (None, q\<lparr>queryParameters := queryParameters q @
                 [(parameter_name n, Str ''*''), (parameter_name (Suc n), tv)],
               builder := builder q @
                 [BWhereBetween f (parameter_name n) (parameter_name (Suc n)) ex]\<rparr>)
    \<and> whereBetween stringify f v Null ex q =
      (None, q\<lparr>queryParameters := queryParameters q @
                 [(parameter_name n, tv), (parameter_name (Suc n), Str ''NULL'')],
               builder := builder q @
                 [BWhereBetween f (parameter_name n) (parameter_name (Suc n)) ex]\<rparr>)
    \<and> whereBetween stringify f Null Null ex q =
      (None, q\<lparr>queryParameters := queryParameters q @
                 [(parameter_name n, Str ''*''), (parameter_name (Suc n), Str ''NULL'')],
               builder := builder q @
                 [BWhereBetween f (parameter_name n) (parameter_name (Suc n)) ex]\<rparr>)
    \<and> whereGreaterThan stringify f Null ex q =
      (None, q\<lparr>queryParameters := queryParameters q @ [(parameter_name n, Str ''*'')],
               builder := builder q @ [BWhereGreaterThan f (parameter_name n) ex]\<rparr>)
    \<and> whereGreaterThanOrEqual stringify f Null ex q =
      (None, q\<lparr>queryParameters := queryParameters q @ [(parameter_name n, Str ''*'')],
               builder := builder q @ [BWhereGreaterThanOrEqual f (parameter_name n) ex]\<rparr>)
    \<and> whereLessThan stringify f Null ex q =
      (None, q\<lparr>queryParameters := queryParameters q @ [(parameter_name n, Str ''NULL'')],
               builder := builder q @ [BWhereLessThan f (parameter_name n) ex]\<rparr>)
    \<and> whereLessThanOrEqual stringify f Null ex q =
      (None, q\<lparr>queryParameters := queryParameters q @ [(parameter_name n, Str ''NULL'')],
               builder := builder q @ [BWhereLessThanOrEqual f (parameter_name n) ex]\<rparr>)"
proof -
  note wf = assms(1)
  have lo: "endpoint stringify ''*'' f v ex = Inr tv"
    and hi: "endpoint stringify ''NULL'' f v ex = Inr tv"
    using assms(2,3) by (simp_all add: endpoint_value)
  note add = addQueryParameter_wf [OF wf]
  have b1: "whereBetween stringify f Null v ex q =
      (None, q\<lparr>queryParameters := queryParameters q @
                 [(parameter_name n, Str ''*''), (parameter_name (Suc n), tv)],
               builder := builder q @
                 [BWhereBetween f (parameter_name n) (parameter_name (Suc n)) ex]\<rparr>)"
    unfolding assms(4) by (rule whereBetween_wf [OF wf endpoint_Null hi])
  have b2: "whereBetween stringify f v Null ex q =
      (None, q\<lparr>queryParameters := queryParameters q @
                 [(parameter_name n, tv), (parameter_name (Suc n), Str ''NULL'')],
               builder := builder q @
                 [BWhereBetween f (parameter_name n) (parameter_name (Suc n)) ex]\<rparr>)"
    unfolding assms(4) by (rule whereBetween_wf [OF wf lo endpoint_Null])
  have b3: "whereBetween stringify f Null Null ex q =
      (None, q\<lparr>queryParameters := queryParameters q @
                 [(parameter_name n, Str ''*''), (parameter_name (Suc n), Str ''NULL'')],
               builder := builder q @
                 [BWhereBetween f (parameter_name n) (parameter_name (Suc n)) ex]\<rparr>)"
    unfolding assms(4) by (rule whereBetween_wf [OF wf endpoint_Null endpoint_Null])
  have g1: "whereGreaterThan stringify f Null ex q =
      (None, q\<lparr>queryParameters := queryParameters q @ [(parameter_name n, Str ''*'')],
               builder := builder q @ [BWhereGreaterThan f (parameter_name n) ex]\<rparr>)"
    by (simp add: whereGreaterThan_def endpoint_Null add builder_call_def assms(4))
  have g2: "whereGreaterThanOrEqual stringify f Null ex q =
      (None, q\<lparr>queryParameters := queryParameters q @ [(parameter_name n, Str ''*'')],
               builder := builder q @ [BWhereGreaterThanOrEqual f (parameter_name n) ex]\<rparr>)"
    by (simp add: whereGreaterThanOrEqual_def endpoint_Null add builder_call_def assms(4))
  have l1: "whereLessThan stringify f Null ex q =
      (None, q\<lparr>queryParameters := queryParameters q @ [(parameter_name n, Str ''NULL'')],
               builder := builder q @ [BWhereLessThan f (parameter_name n) ex]\<rparr>)"
    by (simp add: whereLessThan_def endpoint_Null add builder_call_def assms(4))
  have l2: "whereLessThanOrEqual stringify f Null ex q =
      (None, q\<lparr>queryParameters := queryParameters q @ [(parameter_name n, Str ''NULL'')],
               builder := builder q @ [BWhereLessThanOrEqual f (parameter_name n) ex]\<rparr>)"
    by (simp add: whereLessThanOrEqual_def endpoint_Null add builder_call_def assms(4))
  from b1 b2 b3 g1 g2 l1 l2 show ?thesis by (intro conjI)
qed

text \<open>
  C1, amended, on a fresh query with the bound 30.
\<close>

theorem range_sentinels_witness:
  "params_wf (queryParameters (create False [] :: (unit, unit) document_query))
   \<and> Num 30 \<noteq> Null
   \<and> transformValue sample_stringify (WhereParams_from ''age'' (Num 30) None None) = Inr (Num 30)
   \<and> whereBetween sample_stringify ''age'' Null (Num 30) None (create False [] :: (unit, unit) document_query) =
       (None, (create False [])\<lparr>queryParameters := [(''p0'', Str ''*''), (''p1'', Num 30)],
                builder := [BWhereBetween ''age'' ''p0'' ''p1'' None]\<rparr>)
   \<and> whereBetween sample_stringify ''age'' (Num 30) Null None (create False [] :: (unit, unit) document_query) =
       (None, (create False [])\<lparr>queryParameters := [(''p0'', Num 30), (''p1'', Str ''NULL'')],
                builder := [BWhereBetween ''age'' ''p0'' ''p1'' None]\<rparr>)
   \<and> whereGreaterThan sample_stringify ''age'' Null None (create False [] :: (unit, unit) document_query) =
       (None, (create False [])\<lparr>queryParameters := [(''p0'', Str ''*'')],
                builder := [BWhereGreaterThan ''age'' ''p0'' None]\<rparr>)
   \<and> whereLessThan sample_stringify ''age'' Null None (create False [] :: (unit, unit) document_query) =
       (None, (create False [])\<lparr>queryParameters := [(''p0'', Str ''NULL'')],
                builder := [BWhereLessThan ''age'' ''p0'' None]\<rparr>)"
proof -
  let ?q = "create False [] :: (unit, unit) document_query"
  have h1: "params_wf (queryParameters ?q)" by (simp add: params_wf_def create_def)
  have h2: "Num 30 \<noteq> Null" by simp
  have h3: "transformValue sample_stringify (WhereParams_from ''age'' (Num 30) None None) = Inr (Num 30)"
    by (simp add: transformValue_def WhereParams_from_def)
  have h4: "0 = length (queryParameters ?q)" by (simp add: create_def)
  show ?thesis
    using h1 h2 h3 range_sentinels [OF h1 h2 h3 h4]
    by (simp add: parameter_name_0 parameter_name_1 create_def)
qed

text \<open>
  C2 at \<open>whereIn('x', [[1,2],3])\<close> on a fresh query: the flat transformed list
  \<open>[1,2,3]\<close> is computed, and the parameter \<open>p0\<close> is bound to the nested array as it
  was given. \<open>containsAny\<close> on the same values binds the flat list.
\<close>

theorem whereIn_binds_values_as_given:
  "whereIn sample_stringify ''x'' [Arr [Num 1, Num 2], Num 3] None (create False [] :: (unit, unit) document_query) =
     (None, (create False [])\<lparr>queryParameters := [(''p0'', Arr [Arr [Num 1, Num 2], Num 3])],
              builder := [BWhereIn ''x'' ''p0'' None]\<rparr>)
   \<and> transformValuesArray sample_stringify ''x'' [Arr [Num 1, Num 2], Num 3] = Inr [Num 1, Num 2, Num 3]
   \<and> containsAny sample_stringify ''x'' [Arr [Num 1, Num 2], Num 3] (create False [] :: (unit, unit) document_query) =
     (None, (create False [])\<lparr>queryParameters := [(''p0'', Arr [Num 1, Num 2, Num 3])],
              builder := [BWhereIn ''x'' ''p0'' None]\<rparr>)"
  by code_simp

text \<open>
  C3, as stated, fails: \<open>whereIn('x', [])\<close> on a fresh query registers the parameter
  \<open>p0\<close> and hands the builder a \<open>whereIn\<close> call.
\<close>

theorem whereIn_empty_counterexample:
  "whereIn sample_stringify ''x'' [] None (create False [] :: (unit, unit) document_query) =
     (None, (create False [])\<lparr>queryParameters := [(''p0'', Arr [])],
              builder := [BWhereIn ''x'' ''p0'' None]\<rparr>)
   \<and> whereIn sample_stringify ''x'' [] None (create False [] :: (unit, unit) document_query) \<noteq>
     (None, create False [])"
  by code_simp

lemma map_set_binds: "map_of (map_set k v ps) k = Some v"
  by (induction ps) auto

text \<open>
  C3, amended: when the flattened form of the values is empty, \<open>containsAny\<close> and
  \<open>containsAll\<close> return normally and leave the query as it was (no builder call, no
  parameter); \<open>whereIn\<close> returns normally, hands the builder one \<open>whereIn\<close> call
  naming the next parameter, and registers a binding under that name.
\<close>

theorem empty_values_clause:
  assumes "unpackValuesArray values = []"
  shows "containsAny stringify f values q = (None, q)
    \<and> containsAll stringify f values q = (None, q)
    \<and> fst (whereIn stringify f values ex q) = None
    \<and> builder (snd (whereIn stringify f values ex q)) =
        builder q @ [BWhereIn f (parameter_name (length (queryParameters q))) ex]
    \<and> map_of (queryParameters (snd (whereIn stringify f values ex q)))
        (parameter_name (length (queryParameters q))) \<noteq> None"
proof -
  have t: "transformValuesArray stringify f values = Inr []"
    by (simp add: transformValuesArray_def assms)
  have "containsAny stringify f values q = (None, q)"
    by (simp add: containsAny_def t)
  moreover have "containsAll stringify f values q = (None, q)"
    by (simp add: containsAll_def t)
  moreover have "fst (whereIn stringify f values ex q) = None"
    by (simp add: whereIn_def t addQueryParameter_def Let_def)
  moreover have "builder (snd (whereIn stringify f values ex q)) =
        builder q @ [BWhereIn f (parameter_name (length (queryParameters q))) ex]"
    by (simp add: whereIn_def t addQueryParameter_def Let_def builder_call_def)
  moreover have "map_of (queryParameters (snd (whereIn stringify f values ex q)))
        (parameter_name (length (queryParameters q))) \<noteq> None"
    by (simp add: whereIn_def t addQueryParameter_def Let_def builder_call_def map_set_binds)
  ultimately show ?thesis by (intro conjI)
qed

text \<open>
  C3, amended, at the values \<open>[[], [[]]]\<close>, whose flattened form is empty.
\<close>

theorem empty_values_clause_witness:
  "unpackValuesArray [Arr [], Arr [Arr []]] = []
   \<and> containsAny sample_stringify ''x'' [Arr [], Arr [Arr []]] (create False [] :: (unit, unit) document_query)
       = (None, create False [])
   \<and> containsAll sample_stringify ''x'' [Arr [], Arr [Arr []]] (create False [] :: (unit, unit) document_query)
       = (None, create False [])
   \<and> builder (snd (whereIn sample_stringify ''x'' [Arr [], Arr [Arr []]] None
        (create False [] :: (unit, unit) document_query))) = [BWhereIn ''x'' ''p0'' None]"
proof -
  have h: "unpackValuesArray [Arr [], Arr [Arr []]] = []" by simp
  show ?thesis
    using h empty_values_clause [OF h, of sample_stringify "''x''"
        "create False [] :: (unit, unit) document_query" None]
    by (simp add: parameter_name_0 create_def)
qed

lemma getIndexQuery_emit: "getIndexQuery env (emit e q) = getIndexQuery env q"
  by (cases "render env (builder q)") (simp_all add: getIndexQuery_def emit_def)

lemma executeQuery_state: "snd (executeQuery env q) = emit EVENT_DOCUMENTS_QUERIED q"
  by (simp add: executeQuery_def Let_def split: sum.splits option.splits completion.splits)

lemma executeQuery_cases:
  "fst (executeQuery env q) =
     (case getIndexQuery env q of
        Inl e \<Rightarrow> Throws e
      | Inr query \<Rightarrow>
          (case execute env query of
             Throws e \<Rightarrow> Throws e
           | Rejects e \<Rightarrow> Rejects e
           | Resolves None \<Rightarrow> Resolves empty_envelope
           | Resolves (Some response) \<Rightarrow>
               if IsStale response = Some True then Rejects (ErrorResponseException stale_message)
               else Resolves response))"
  by (simp add: executeQuery_def Let_def getIndexQuery_emit
      split: sum.splits option.splits completion.splits)

lemma getIndexQuery_stub:
  "clause_depth (builder q) = 0 \<Longrightarrow>
   getIndexQuery (stub_env exec proj) q =
     Inr \<lparr>iq_query = [], iq_queryParameters = queryParameters q,
          iq_take = (case q_take q of None \<Rightarrow> MAX_INT32 | Some t \<Rightarrow> t),
          iq_skip = (case q_skip q of None \<Rightarrow> 0 | Some k \<Rightarrow> k),
          iq_options = indexQueryOptions q\<rparr>"
  by (simp add: getIndexQuery_def stub_env_def sample_render_def toJson_def)

text \<open>
  C5: when the execution layer, given the descriptor of the query, returns an absent
  response, \<open>executeQuery\<close> resolves to the synthesised envelope, whose results and
  includes are empty; when the response has \<open>IsStale\<close> true it fails with the
  staleness error; otherwise it resolves to the response, unchanged.
\<close>

theorem executeQuery_outcomes:
  "(getIndexQuery env q = Inr query \<and> execute env query = Resolves None \<longrightarrow>
      fst (executeQuery env q) = Resolves empty_envelope)
   \<and> Results (empty_envelope :: 'r raven_response) = []
   \<and> Includes (empty_envelope :: 'r raven_response) = []
   \<and> (getIndexQuery env q = Inr query \<and> execute env query = Resolves (Some response)
        \<and> IsStale response = Some True \<longrightarrow>
      fst (executeQuery env q) = Rejects (ErrorResponseException stale_message))
   \<and> (getIndexQuery env q = Inr query \<and> execute env query = Resolves (Some response)
        \<and> IsStale response \<noteq> Some True \<longrightarrow>
      fst (executeQuery env q) = Resolves response)"
  by (simp add: executeQuery_cases empty_envelope_def)

text \<open>
  C5 at an absent response, a stale response and a fresh one.
\<close>

theorem executeQuery_outcomes_witness:
  "fst (executeQuery (stub_env (\<lambda>iq. Resolves None) (\<lambda>r. False)) (create False []))
       = Resolves empty_envelope
   \<and> fst (executeQuery (stub_env (\<lambda>iq. Resolves (Some (envelope [1] [] (Some True)))) (\<lambda>r. False))
        (create False []))
       = Rejects (ErrorResponseException stale_message)
   \<and> fst (executeQuery (stub_env (\<lambda>iq. Resolves (Some (envelope [1] [] (Some False)))) (\<lambda>r. False))
        (create False []))
       = Resolves (envelope [1] [] (Some False))"
proof -
  let ?q = "create False [] :: (nat, nat) document_query"
  let ?iq = "\<lparr>iq_query = [], iq_queryParameters = [], iq_take = MAX_INT32, iq_skip = 0,
        iq_options = []\<rparr>"
  let ?e0 = "stub_env (\<lambda>iq. Resolves None) (\<lambda>r. False)"
  let ?e1 = "stub_env (\<lambda>iq. Resolves (Some (envelope [1] [] (Some True)))) (\<lambda>r. False)"
  let ?e2 = "stub_env (\<lambda>iq. Resolves (Some (envelope [1] [] (Some False)))) (\<lambda>r. False)"
  have d: "clause_depth (builder ?q) = 0" by (simp add: create_def)
  have a: "getIndexQuery ?e0 ?q = Inr ?iq \<and> execute ?e0 ?iq = Resolves None"
    by (simp add: getIndexQuery_stub [OF d]) (simp add: create_def stub_env_def)
  have b: "getIndexQuery ?e1 ?q = Inr ?iq
      \<and> execute ?e1 ?iq = Resolves (Some (envelope [1] [] (Some True)))
      \<and> IsStale (envelope [1] [] (Some True)) = Some True"
    by (simp add: getIndexQuery_stub [OF d]) (simp add: create_def stub_env_def envelope_def)
  have c: "getIndexQuery ?e2 ?q = Inr ?iq
      \<and> execute ?e2 ?iq = Resolves (Some (envelope [1] [] (Some False)))
      \<and> IsStale (envelope [1] [] (Some False)) \<noteq> Some True"
    by (simp add: getIndexQuery_stub [OF d]) (simp add: create_def stub_env_def envelope_def)
  show ?thesis
    using a b c
      executeQuery_outcomes [of ?e0 ?q ?iq]
      executeQuery_outcomes [of ?e1 ?q ?iq "envelope [1] [] (Some True)"]
      executeQuery_outcomes [of ?e2 ?q ?iq "envelope [1] [] (Some False)"]
    by blast
qed

lemma convertEach_success:
  "map (convertToDocument env) rs = map Inr cs \<Longrightarrow>
   convertEach env rs acc q =
     (Inr (acc @ map document cs), q\<lparr>emitted := emitted q @ fetched_events env rs cs\<rparr>)"
proof (induction rs arbitrary: cs acc q)
  case Nil
  then show ?case by (simp add: fetched_events_def)
next
  case (Cons r rs)
  then obtain c cs' where cs: "cs = c # cs'" by (cases cs) auto
  with Cons.prems have c: "convertToDocument env r = Inr c"
    and rest: "map (convertToDocument env) rs = map Inr cs'" by auto
  show ?case
    by (simp add: cs c Cons.IH [OF rest] fetched_events_def emit_def)
qed

lemma convertEach_withStatistics:
  "withStatistics (snd (convertEach env rs acc q)) = withStatistics q"
  by (induction rs arbitrary: acc q) (auto simp: emit_def split: sum.splits)

lemma convertResponseToDocuments_empty:
  "tryFetchResults env response = [] \<Longrightarrow>
   convertResponseToDocuments env response q = (Inr (Plain []), q)"
  by (simp add: convertResponseToDocuments_def)

lemma convertResponseToDocuments_success:
  assumes "tryFetchResults env response = rs" and "rs \<noteq> []"
    and "map (convertToDocument env) rs = map Inr cs"
  shows "convertResponseToDocuments env response q =
     (Inr (if withStatistics q then WithStatistics (map document cs) response
           else Plain (map document cs)),
      q\<lparr>emitted := emitted q @ fetched_events env rs cs
                     @ includes_events (tryFetchIncludes env response)\<rparr>)"
  using assms(2)
  by (simp add: convertResponseToDocuments_def assms(1) convertEach_success [OF assms(3)]
      Let_def emit_def includes_events_def)

text \<open>
  C9: the conversion of a non-empty result set, every result converting, emits one
  \<open>document fetched\<close> notification, carrying the conversion result, for each raw
  result that is not flagged as a projection, in result order, none for a projection,
  and after them one \<open>includes fetched\<close> notification carrying the whole batch when
  the includes are not empty, none otherwise.
\<close>

theorem conversion_notifications:
  assumes "tryFetchResults env response = rs" and "rs \<noteq> []"
    and "map (convertToDocument env) rs = map Inr cs"
  shows "emitted (snd (convertResponseToDocuments env response q)) =
      emitted q
      @ map (\<lambda>(r, c). EVENT_DOCUMENT_FETCHED c)
          (filter (\<lambda>(r, c). \<not> checkIsProjection env r) (zip rs cs))
      @ (if tryFetchIncludes env response = [] then []
         else [EVENT_INCLUDES_FETCHED (tryFetchIncludes env response)])"
  by (simp add: convertResponseToDocuments_success [OF assms] fetched_events_def includes_events_def)

text \<open>
  C9 at the results 1, 2, 3, of which 2 is a projection, with includes 8, 9.
\<close>

theorem conversion_notifications_witness:
  "tryFetchResults (stub_env (\<lambda>iq. Resolves None) even) (envelope [1, 2, 3] [8, 9] None) = [1, 2, 3]
   \<and> map (convertToDocument (stub_env (\<lambda>iq. Resolves None) even)) [1, 2, 3] =
       map Inr [\<lparr>document = 10, rawEntity = 1, metadata = 0\<rparr>,
                \<lparr>document = 20, rawEntity = 2, metadata = 0\<rparr>,
                \<lparr>document = 30, rawEntity = 3, metadata = 0\<rparr>]
   \<and> emitted (snd (convertResponseToDocuments (stub_env (\<lambda>iq. Resolves None) even)
        (envelope [1, 2, 3] [8, 9] None) (create False []))) =
       [EVENT_DOCUMENT_FETCHED \<lparr>document = 10, rawEntity = 1, metadata = 0\<rparr>,
        EVENT_DOCUMENT_FETCHED \<lparr>document = 30, rawEntity = 3, metadata = 0\<rparr>,
        EVENT_INCLUDES_FETCHED [8, 9]]"
proof -
  let ?env = "stub_env (\<lambda>iq. Resolves None) even"
  let ?cs = "[\<lparr>document = 10, rawEntity = 1, metadata = 0\<rparr>,
              \<lparr>document = 20, rawEntity = 2, metadata = 0\<rparr>,
              \<lparr>document = 30, rawEntity = 3::nat, metadata = 0::nat\<rparr>] :: (nat, nat) conversion_result list"
  have h1: "tryFetchResults ?env (envelope [1, 2, 3] [8, 9] None) = [1, 2, 3]"
    by (simp add: stub_env_def envelope_def)
  have h2: "[1, 2, 3] \<noteq> ([] :: nat list)" by simp
  have h3: "map (convertToDocument ?env) [1, 2, 3] = map Inr ?cs"
    by (simp add: stub_env_def)
  show ?thesis
    using h1 h3 conversion_notifications [OF h1 h2 h3, of "create False []"]
    by (simp add: stub_env_def envelope_def create_def)
qed

text \<open>
  C8 at an envelope with no results: with statistics enabled the conversion returns
  the plain empty sequence, not the pair of empty results and envelope, and no
  notification is emitted; with statistics disabled it returns the empty sequence. A
  single result, with statistics enabled, does come back paired with the envelope.
\<close>

theorem empty_results_with_statistics:
  "convertResponseToDocuments (stub_env (\<lambda>iq. Resolves None) (\<lambda>r. False)) (envelope [] [] None) (create True [])
     = (Inr (Plain []), create True [])
   \<and> convertResponseToDocuments (stub_env (\<lambda>iq. Resolves None) (\<lambda>r. False)) (envelope [] [] None) (create True [])
     \<noteq> (Inr (WithStatistics [] (envelope [] [] None)), create True [])
   \<and> convertResponseToDocuments (stub_env (\<lambda>iq. Resolves None) (\<lambda>r. False)) (envelope [] [] None) (create False [])
     = (Inr (Plain []), create False [])
   \<and> convertResponseToDocuments (stub_env (\<lambda>iq. Resolves None) (\<lambda>r. False)) (envelope [1] [] None) (create True [])
     = (Inr (WithStatistics [10] (envelope [1] [] None)),
        (create True [])\<lparr>emitted := [EVENT_DOCUMENT_FETCHED \<lparr>document = 10, rawEntity = 1, metadata = 0\<rparr>]\<rparr>)"
  by (simp add: convertResponseToDocuments_def stub_env_def envelope_def create_def emit_def)

lemma messages_differ: "no_results_message \<noteq> more_than_one_message"
  by (simp add: no_results_message_def more_than_one_message_def)

text \<open>
  C4: \<open>single\<close> executes with take 2, skip 0 and statistics off. When the execution
  yields an envelope whose results all convert, no result fails with the
  invalid-operation error of the empty case, two or more fail with the
  invalid-operation error of the ambiguous case, a different message, and exactly one
  returns that entity. Take, skip and statistics are afterwards what they were before
  the call.
\<close>

theorem single_outcomes:
  assumes "fst (executeQuery env (q\<lparr>q_take := Some 2, q_skip := Some 0, withStatistics := False\<rparr>))
      = Resolves response"
    and "tryFetchResults env response = rs"
    and "map (convertToDocument env) rs = map Inr cs"
  shows "fst (single env q) =
      (case cs of
         [] \<Rightarrow> Inl (InvalidOperationException no_results_message)
       | [c] \<Rightarrow> Inr (Some (document c))
       | c # c' # cs2 \<Rightarrow> Inl (InvalidOperationException more_than_one_message))
    \<and> no_results_message \<noteq> more_than_one_message
    \<and> (\<exists>query. getIndexQuery env (q\<lparr>q_take := Some 2, q_skip := Some 0, withStatistics := False\<rparr>)
          = Inr query \<and> iq_take query = 2 \<and> iq_skip query = 0)
    \<and> q_take (snd (single env q)) = q_take q
    \<and> q_skip (snd (single env q)) = q_skip q
    \<and> withStatistics (snd (single env q)) = withStatistics q"
proof -
  let ?q0 = "q\<lparr>q_take := Some 2, q_skip := Some 0, withStatistics := False\<rparr>"
  let ?q1 = "emit EVENT_DOCUMENTS_QUERIED ?q0"
  have ex: "executeQuery env ?q0 = (Resolves response, ?q1)"
    using assms(1) executeQuery_state [of env ?q0] by (cases "executeQuery env ?q0") simp
  have ns: "\<not> withStatistics ?q1" by (simp add: emit_def)
  have len: "length cs = length rs"
    using arg_cong [OF assms(3), of length] by simp
  have restored: "q_take (snd (single env q)) = q_take q
      \<and> q_skip (snd (single env q)) = q_skip q
      \<and> withStatistics (snd (single env q)) = withStatistics q"
    by (simp add: single_def Let_def ex split: prod.splits)
  have desc: "\<exists>query. getIndexQuery env ?q0 = Inr query \<and> iq_take query = 2 \<and> iq_skip query = 0"
  proof (cases "render env (builder ?q0)")
    case (Inl e)
    then have "fst (executeQuery env ?q0) = Throws e"
      by (simp add: executeQuery_cases getIndexQuery_def)
    with assms(1) show ?thesis by simp
  next
    case (Inr rendered)
    then show ?thesis by (simp add: getIndexQuery_def)
  qed
  have out: "fst (single env q) =
      (case cs of
         [] \<Rightarrow> Inl (InvalidOperationException no_results_message)
       | [c] \<Rightarrow> Inr (Some (document c))
       | c # c' # cs2 \<Rightarrow> Inl (InvalidOperationException more_than_one_message))"
  proof (cases "rs = []")
    case True
    with len have "cs = []" by simp
    moreover have "convertResponseToDocuments env response ?q1 = (Inr (Plain []), ?q1)"
      using True assms(2) by (simp add: convertResponseToDocuments_empty)
    ultimately show ?thesis
      by (simp add: single_def Let_def ex)
  next
    case False
    have conv: "convertResponseToDocuments env response ?q1 =
        (Inr (Plain (map document cs)),
         ?q1\<lparr>emitted := emitted ?q1 @ fetched_events env rs cs
                          @ includes_events (tryFetchIncludes env response)\<rparr>)"
      using convertResponseToDocuments_success [OF assms(2) False assms(3), of ?q1] ns by simp
    from False len obtain c cs' where cs: "cs = c # cs'" by (cases cs) auto
    show ?thesis
    proof (cases cs')
      case Nil
      then show ?thesis by (simp add: single_def Let_def ex conv cs)
    next
      case (Cons c' cs2)
      then show ?thesis by (simp add: single_def Let_def ex conv cs)
    qed
  qed
  from out messages_differ desc restored show ?thesis by blast
qed

text \<open>
  C4 on a query with take 5, skip 3 and statistics on, against an execution layer that
  honours take over one, no and three stored results.
\<close>

theorem single_outcomes_witness:
  "fst (single (stub_env (\<lambda>iq. Resolves (Some (envelope (take (nat (iq_take iq)) [7]) [] None))) (\<lambda>r. False))
        ((create True [])\<lparr>q_take := Some 5, q_skip := Some 3\<rparr>)) = Inr (Some 70)
   \<and> fst (single (stub_env (\<lambda>iq. Resolves None) (\<lambda>r. False))
        ((create True [])\<lparr>q_take := Some 5, q_skip := Some 3\<rparr>))
       = Inl (InvalidOperationException no_results_message)
   \<and> fst (single (stub_env (\<lambda>iq. Resolves (Some (envelope (take (nat (iq_take iq)) [4, 5, 6]) [] None))) (\<lambda>r. False))
        ((create True [])\<lparr>q_take := Some 5, q_skip := Some 3\<rparr>))
       = Inl (InvalidOperationException more_than_one_message)
   \<and> q_take (snd (single (stub_env (\<lambda>iq. Resolves None) (\<lambda>r. False))
        ((create True [])\<lparr>q_take := Some 5, q_skip := Some 3\<rparr>))) = Some 5
   \<and> q_skip (snd (single (stub_env (\<lambda>iq. Resolves None) (\<lambda>r. False))
        ((create True [])\<lparr>q_take := Some 5, q_skip := Some 3\<rparr>))) = Some 3
   \<and> withStatistics (snd (single (stub_env (\<lambda>iq. Resolves None) (\<lambda>r. False))
        ((create True [])\<lparr>q_take := Some 5, q_skip := Some 3\<rparr>)))"
proof -
  let ?q = "(create True [])\<lparr>q_take := Some 5, q_skip := Some 3\<rparr> :: (nat, nat) document_query"
  let ?q0 = "?q\<lparr>q_take := Some 2, q_skip := Some 0, withStatistics := False\<rparr>"
  let ?e1 = "stub_env (\<lambda>iq. Resolves (Some (envelope (take (nat (iq_take iq)) [7]) [] None))) (\<lambda>r. False)"
  let ?e0 = "stub_env (\<lambda>iq. Resolves None) (\<lambda>r. False)"
  let ?e2 = "stub_env (\<lambda>iq. Resolves (Some (envelope (take (nat (iq_take iq)) [4, 5, 6]) [] None))) (\<lambda>r. False)"
  have two: "take (nat 2) [4, 5, 6::nat] = [4, 5]" "take (nat 2) [7::nat] = [7]"
    by (simp_all add: numeral_2_eq_2)
  have a1: "fst (executeQuery ?e1 ?q0) = Resolves (envelope [7] [] None)"
    by (simp add: executeQuery_cases getIndexQuery_stub create_def)
       (simp add: stub_env_def two envelope_def)
  have a2: "tryFetchResults ?e1 (envelope [7] [] None) = [7]"
    by (simp add: stub_env_def envelope_def)
  have a3: "map (convertToDocument ?e1) [7] = map Inr [\<lparr>document = 70, rawEntity = 7, metadata = 0\<rparr>]"
    by (simp add: stub_env_def)
  have b1: "fst (executeQuery ?e0 ?q0) = Resolves empty_envelope"
    by (simp add: executeQuery_cases getIndexQuery_stub create_def) (simp add: stub_env_def)
  have b2: "tryFetchResults ?e0 empty_envelope = []"
    by (simp add: stub_env_def empty_envelope_def)
  have b3: "map (convertToDocument ?e0) [] = map Inr []" by simp
  have c1: "fst (executeQuery ?e2 ?q0) = Resolves (envelope [4, 5] [] None)"
    by (simp add: executeQuery_cases getIndexQuery_stub create_def)
       (simp add: stub_env_def two envelope_def)
  have c2: "tryFetchResults ?e2 (envelope [4, 5] [] None) = [4, 5]"
    by (simp add: stub_env_def envelope_def)
  have c3: "map (convertToDocument ?e2) [4, 5] =
      map Inr [\<lparr>document = 40, rawEntity = 4, metadata = 0\<rparr>, \<lparr>document = 50, rawEntity = 5, metadata = 0\<rparr>]"
    by (simp add: stub_env_def)
  show ?thesis
    using single_outcomes [OF a1 a2 a3] single_outcomes [OF b1 b2 b3] single_outcomes [OF c1 c2 c3]
    by (simp add: create_def)
qed

text \<open>
  When \<open>executeQuery\<close> does not throw (the rendering and the execution layer return),
  whatever the promise then does (a rejection, a stale response, a conversion that
  throws), \<open>single\<close>, \<open>first\<close> and \<open>count\<close> leave take, skip and statistics as they
  were before the call.
\<close>

lemma restored_after_settlement:
  assumes "\<And>e. render env (builder q) \<noteq> Inl e"
    and "\<And>query e. execute env query \<noteq> Throws e"
  shows "q_take (snd (single env q)) = q_take q
   \<and> q_skip (snd (single env q)) = q_skip q
   \<and> withStatistics (snd (single env q)) = withStatistics q
   \<and> q_take (snd (first env q)) = q_take q
   \<and> q_skip (snd (first env q)) = q_skip q
   \<and> withStatistics (snd (first env q)) = withStatistics q
   \<and> q_take (snd (count env q)) = q_take q
   \<and> q_skip (snd (count env q)) = q_skip q
   \<and> withStatistics (snd (count env q)) = withStatistics q"
proof -
  have nothrow: "fst (executeQuery env q') \<noteq> Throws e" if "builder q' = builder q" for q' e
    using assms that
    by (auto simp: executeQuery_cases getIndexQuery_def
        split: sum.splits completion.splits option.splits)
  have st: "snd (executeQuery env q') = emit EVENT_DOCUMENTS_QUERIED q'" for q'
    by (rule executeQuery_state)
  let ?s = "q\<lparr>q_take := Some 2, q_skip := Some 0, withStatistics := False\<rparr>"
  let ?f = "q\<lparr>q_take := Some 1, q_skip := Some 0, withStatistics := False\<rparr>"
  let ?c = "q\<lparr>q_take := Some 0, q_skip := Some 0\<rparr>"
  have s: "q_take (snd (single env q)) = q_take q
      \<and> q_skip (snd (single env q)) = q_skip q
      \<and> withStatistics (snd (single env q)) = withStatistics q"
    using nothrow [of ?s] st [of ?s]
    by (cases "executeQuery env ?s"; cases "fst (executeQuery env ?s)")
       (auto simp: single_def Let_def split: prod.splits)
  have f: "q_take (snd (first env q)) = q_take q
      \<and> q_skip (snd (first env q)) = q_skip q
      \<and> withStatistics (snd (first env q)) = withStatistics q"
    using nothrow [of ?f] st [of ?f]
    by (cases "executeQuery env ?f"; cases "fst (executeQuery env ?f)")
       (auto simp: first_def Let_def split: prod.splits)
  have c: "q_take (snd (count env q)) = q_take q
      \<and> q_skip (snd (count env q)) = q_skip q
      \<and> withStatistics (snd (count env q)) = withStatistics q"
    using nothrow [of ?c] st [of ?c]
    by (cases "executeQuery env ?c"; cases "fst (executeQuery env ?c)")
       (auto simp: count_def Let_def emit_def split: prod.splits)
  from s f c show ?thesis by simp
qed

text \<open>
  C7 at a query with take 5, skip 3 and statistics on, whose subclause was opened and
  not closed: rendering throws inside \<open>executeQuery\<close>, before any promise exists to
  chain \<open>finally\<close> on, and \<open>single\<close> leaves take 2, skip 0 and statistics off behind,
  \<open>first\<close> take 1, skip 0 and statistics off, \<open>count\<close> take 0 and skip 0.
\<close>

theorem restore_skipped_on_render_throw:
  "fst (openSubclause ((create True [])\<lparr>q_take := Some 5, q_skip := Some 3\<rparr> :: (nat, nat) document_query))
     = None
   \<and> single (stub_env (\<lambda>iq. Resolves None) (\<lambda>r. False))
       (snd (openSubclause ((create True [])\<lparr>q_take := Some 5, q_skip := Some 3\<rparr>))) =
     (Inl (InvalidOperationException ''A clause was not closed correctly within this query''),
      (create True [])\<lparr>withStatistics := False, q_take := Some 2, q_skip := Some 0,
         builder := [BOpenSubclause], emitted := [EVENT_DOCUMENTS_QUERIED]\<rparr>)
   \<and> first (stub_env (\<lambda>iq. Resolves None) (\<lambda>r. False))
       (snd (openSubclause ((create True [])\<lparr>q_take := Some 5, q_skip := Some 3\<rparr>))) =
     (Inl (InvalidOperationException ''A clause was not closed correctly within this query''),
      (create True [])\<lparr>withStatistics := False, q_take := Some 1, q_skip := Some 0,
         builder := [BOpenSubclause], emitted := [EVENT_DOCUMENTS_QUERIED]\<rparr>)
   \<and> count (stub_env (\<lambda>iq. Resolves None) (\<lambda>r. False))
       (snd (openSubclause ((create True [])\<lparr>q_take := Some 5, q_skip := Some 3\<rparr>))) =
     (Inl (InvalidOperationException ''A clause was not closed correctly within this query''),
      (create True [])\<lparr>q_take := Some 0, q_skip := Some 0,
         builder := [BOpenSubclause], emitted := [EVENT_DOCUMENTS_QUERIED]\<rparr>)
   \<and> q_take (snd (single (stub_env (\<lambda>iq. Resolves None) (\<lambda>r. False))
       (snd (openSubclause ((create True [])\<lparr>q_take := Some 5, q_skip := Some 3\<rparr>))))) \<noteq> Some 5"
  by (simp add: single_def first_def count_def executeQuery_def getIndexQuery_def
      openSubclause_def builder_call_def stub_env_def sample_render_def create_def emit_def)

text \<open>
  Three failing paths that do restore, run: a rejection of the execution layer under
  \<open>single\<close>, a conversion that throws under \<open>first\<close>, a stale response under \<open>count\<close>.
\<close>

lemma restored_after_failure:
  "single (stub_env (\<lambda>iq. Rejects (ExternalError ''timeout'')) (\<lambda>r. False))
      ((create True [])\<lparr>q_take := Some 5, q_skip := Some 3\<rparr>) =
     (Inl (ExternalError ''timeout''),
      (create True [])\<lparr>q_take := Some 5, q_skip := Some 3, emitted := [EVENT_DOCUMENTS_QUERIED]\<rparr>)
   \<and> first (stub_env (\<lambda>iq. Resolves (Some (envelope [0] [] None))) (\<lambda>r. False))
      ((create True [])\<lparr>q_take := Some 5, q_skip := Some 3\<rparr>) =
     (Inl (ExternalError ''conversion''),
      (create True [])\<lparr>q_take := Some 5, q_skip := Some 3, emitted := [EVENT_DOCUMENTS_QUERIED]\<rparr>)
   \<and> count (stub_env (\<lambda>iq. Resolves (Some (envelope [1] [] (Some True)))) (\<lambda>r. False))
      ((create True [])\<lparr>q_take := Some 5, q_skip := Some 3\<rparr>) =
     (Inl (ErrorResponseException stale_message),
      (create True [])\<lparr>q_take := Some 5, q_skip := Some 3, emitted := [EVENT_DOCUMENTS_QUERIED]\<rparr>)"
  by (simp add: single_def first_def count_def executeQuery_def convertResponseToDocuments_def
      getIndexQuery_def stub_env_def sample_render_def envelope_def create_def emit_def)

text \<open>
  A conversion that throws ends the loop: the results after it are neither converted
  nor announced.
\<close>

lemma convertEach_aborts:
  "map (convertToDocument env) pre = map Inr cs \<Longrightarrow> convertToDocument env r = Inl e \<Longrightarrow>
   convertEach env (pre @ r # post) acc q =
     (Inl e, q\<lparr>emitted := emitted q @ fetched_events env pre cs\<rparr>)"
proof (induction pre arbitrary: cs acc q)
  case Nil
  then show ?case by (simp add: fetched_events_def)
next
  case (Cons p pre)
  then obtain c cs' where cs: "cs = c # cs'" by (cases cs) auto
  with Cons.prems have c: "convertToDocument env p = Inr c"
    and rest: "map (convertToDocument env) pre = map Inr cs'" by auto
  show ?case
    by (simp add: cs c Cons.IH [OF rest Cons.prems(2)] fetched_events_def emit_def)
qed

end
